theory Spec2Isabelle
  imports Main
begin

section \<open>Data model of the calling component\<close>

text \<open>
  The repository holds two revisions of \<^verbatim>\<open>src/components/Calls.tsx\<close>: one that negotiates
  over a broadcast channel with a native peer connection (file \<^verbatim>\<open>Calls.tsx\<close>), and one that
  delegates negotiation to the PeerJS library (second document of file \<^verbatim>\<open>Auth.tsx\<close>).
  Both are embedded here. Definitions of the first revision keep the names of the source;
  those of the second carry the suffix \<open>_peer\<close> (fields: \<open>_pj\<close>).

  Every callback of the component is modelled as one state transformer: React state, the
  refs and a record of the requests made of the libraries form one record, and the result
  of an asynchronous platform request (\<^verbatim>\<open>getUserMedia\<close>) is an argument of the function.
  The function yields the state in which the callback leaves the component, whether it
  returns or is stopped by an exception: the writes made before the exception stay, the
  statements after it are not executed.
\<close>

datatype call_type = Audio | Video

record profile =
  pid :: string
  username :: string
  display_name :: string

datatype track_kind = AudioTrack | VideoTrack

record track =
  kind :: track_kind
  enabled :: bool

type_synonym media_stream = "track list"

datatype sdp_type = SdpOffer | SdpAnswer

record sdp =
  sdp_type :: sdp_type
  sdp_media :: "track_kind list"

type_synonym ice_candidate = string

text \<open>\<^verbatim>\<open>type CallPayload = { from; to?; offer?; answer?; candidate?; type? }\<close>\<close>

record call_payload =
  p_from :: profile
  p_to :: "profile option"
  p_offer :: "sdp option"
  p_answer :: "sdp option"
  p_candidate :: "ice_candidate option"
  p_type :: "call_type option"

text \<open>\<^verbatim>\<open>{ with: Profile; type: 'audio' | 'video'; isCaller: boolean }\<close>; the type is optional
  here because \<^verbatim>\<open>answerCall\<close> copies \<^verbatim>\<open>incomingCall.type!\<close>, which the payload may lack.\<close>

record call_info =
  ci_with :: profile
  ci_type :: "call_type option"
  isCaller :: bool

datatype call_event = CallOffer | CallAnswer | IceCandidate | HangUp

text \<open>The object \<^verbatim>\<open>supabase.channel(`call:${user.id}`)\<close> returns: the channel of the
  local user's own id.\<close>

record channel =
  chan_name :: string

datatype js_error = TypeError

subsection \<open>The platform's peer connection\<close>

text \<open>
  \<^verbatim>\<open>RTCPeerConnection\<close> belongs to the browser, not to the repository. The record keeps what
  the component's calls can change, following the contract of the WebRTC API restricted
  to offers and answers: a description is accepted only in the matching signalling state,
  and \<^verbatim>\<open>addIceCandidate\<close> is rejected with \<^verbatim>\<open>InvalidStateError\<close> while no remote
  description is set. A rejected request leaves the connection as it was.
\<close>

datatype signaling_state = Stable | HaveLocalOffer | HaveRemoteOffer | Closed

datatype pc_error = InvalidStateError

record peer_connection =
  pc_target :: profile
  senders :: "track_kind list"
  signalingState :: signaling_state
  localDescription :: "sdp option"
  remoteDescription :: "sdp option"
  iceCandidates :: "ice_candidate list"

definition new_pc :: "profile \<Rightarrow> peer_connection" where
  "new_pc target = \<lparr>pc_target = target, senders = [], signalingState = Stable,
     localDescription = None, remoteDescription = None, iceCandidates = []\<rparr>"

definition addTrack :: "track \<Rightarrow> peer_connection \<Rightarrow> peer_connection" where
  "addTrack t pc = pc\<lparr>senders := senders pc @ [kind t]\<rparr>"

definition createOffer :: "peer_connection \<Rightarrow> sdp" where
  "createOffer pc = \<lparr>sdp_type = SdpOffer, sdp_media = senders pc\<rparr>"

definition createAnswer :: "peer_connection \<Rightarrow> sdp" where
  "createAnswer pc = \<lparr>sdp_type = SdpAnswer, sdp_media = senders pc\<rparr>"

definition setLocalDescription :: "peer_connection \<Rightarrow> sdp \<Rightarrow> pc_error + peer_connection" where
  "setLocalDescription pc d =
     (if sdp_type d = SdpOffer \<and> signalingState pc = Stable
      then Inr (pc\<lparr>signalingState := HaveLocalOffer, localDescription := Some d\<rparr>)
      else if sdp_type d = SdpAnswer \<and> signalingState pc = HaveRemoteOffer
      then Inr (pc\<lparr>signalingState := Stable, localDescription := Some d\<rparr>)
      else Inl InvalidStateError)"

definition setRemoteDescription :: "peer_connection \<Rightarrow> sdp \<Rightarrow> pc_error + peer_connection" where
  "setRemoteDescription pc d =
     (if sdp_type d = SdpOffer \<and> signalingState pc = Stable
      then Inr (pc\<lparr>signalingState := HaveRemoteOffer, remoteDescription := Some d\<rparr>)
      else if sdp_type d = SdpAnswer \<and> signalingState pc = HaveLocalOffer
      then Inr (pc\<lparr>signalingState := Stable, remoteDescription := Some d\<rparr>)
      else Inl InvalidStateError)"

definition addIceCandidate :: "peer_connection \<Rightarrow> ice_candidate \<Rightarrow> pc_error + peer_connection" where
  "addIceCandidate pc c =
     (if signalingState pc = Closed \<or> remoteDescription pc = None
      then Inl InvalidStateError
      else Inr (pc\<lparr>iceCandidates := iceCandidates pc @ [c]\<rparr>))"

definition close_pc :: "peer_connection \<Rightarrow> peer_connection" where
  "close_pc pc = pc\<lparr>signalingState := Closed\<rparr>"

section \<open>The broadcast-channel revision (Calls.tsx)\<close>

text \<open>
  The \<^verbatim>\<open>useState\<close> cells and the two refs. \<open>closedConnections\<close> and \<open>stoppedTracks\<close>
  record what \<^verbatim>\<open>cleanupCall\<close> closes and stops before it drops the references.
  \<open>broadcastCalls\<close> records, in order, the calls of \<^verbatim>\<open>broadcast\<close> the component makes on
  a channel object; none of them transmits anything, see \<open>broadcast\<close>.
\<close>

record call_state =
  user :: "profile option"
  incomingCall :: "call_payload option"
  callInProgress :: "call_info option"
  localStream :: "media_stream option"
  remoteStream :: "media_stream option"
  isMuted :: bool
  isCamOff :: bool
  pcRef :: "peer_connection option"
  callChannelRef :: "channel option"
  broadcastCalls :: "(call_event \<times> call_payload) list"
  closedConnections :: "peer_connection list"
  stoppedTracks :: "track list"

text \<open>
  \<^verbatim>\<open>callChannelRef.current?.broadcast({ event, payload })\<close>. The ref is typed \<^verbatim>\<open>any\<close> and
  holds what \<^verbatim>\<open>supabase.channel\<close> returned. That object sends through \<^verbatim>\<open>send\<close>; it has no
  member \<^verbatim>\<open>broadcast\<close>. With a channel in the ref the call therefore raises \<^verbatim>\<open>TypeError\<close>
  (calling \<^verbatim>\<open>undefined\<close>) and nothing is transmitted; with a null ref, \<^verbatim>\<open>?.\<close> skips the call
  and the callback goes on. The result says whether the exception was raised.
\<close>

definition broadcast ::
  "call_event \<Rightarrow> call_payload \<Rightarrow> call_state \<Rightarrow> js_error option \<times> call_state" where
  "broadcast ev p s =
     (case callChannelRef s of
        None \<Rightarrow> (None, s)
      | Some ch \<Rightarrow> (Some TypeError, s\<lparr>broadcastCalls := broadcastCalls s @ [(ev, p)]\<rparr>))"

text \<open>The outcome of \<^verbatim>\<open>navigator.mediaDevices.getUserMedia\<close>: the name of the error it
  throws, or the stream.\<close>

type_synonym media_result = "string + media_stream"

definition getMedia ::
  "media_result \<Rightarrow> call_type option \<Rightarrow> call_state \<Rightarrow> media_stream option \<times> call_state" where
  "getMedia m ty s =
     (case m of
        Inr stream \<Rightarrow>
          (let s1 = s\<lparr>localStream := Some stream\<rparr>;
               s2 = (if ty = Some Video then s1\<lparr>isCamOff := False\<rparr> else s1)
           in (Some stream, s2\<lparr>isMuted := False\<rparr>))
      | Inl err \<Rightarrow> (None, s))"

definition tracks_of :: "media_stream option \<Rightarrow> track list" where
  "tracks_of st = (case st of None \<Rightarrow> [] | Some ts \<Rightarrow> ts)"

definition cleanupCall :: "call_state \<Rightarrow> call_state" where
  "cleanupCall s =
     s\<lparr>closedConnections :=
         closedConnections s @ (case pcRef s of None \<Rightarrow> [] | Some pc \<Rightarrow> [close_pc pc]),
       pcRef := None,
       stoppedTracks := stoppedTracks s @ tracks_of (localStream s) @ tracks_of (remoteStream s),
       localStream := None,
       remoteStream := None,
       callInProgress := None,
       incomingCall := None,
       isMuted := False,
       isCamOff := False\<rparr>"

definition setupPeerConnection :: "media_stream \<Rightarrow> profile \<Rightarrow> peer_connection" where
  "setupPeerConnection stream targetUser = fold addTrack stream (new_pc targetUser)"

text \<open>\<^verbatim>\<open>handleHangUp\<close>: the broadcast comes first; when it raises, \<^verbatim>\<open>cleanupCall()\<close> is not
  reached.\<close>

definition handleHangUp :: "bool \<Rightarrow> call_state \<Rightarrow> call_state" where
  "handleHangUp bc s =
     (case (callInProgress s, user s) of
        (Some ci, Some u) \<Rightarrow>
          (if bc
           then (case broadcast HangUp
                        \<lparr>p_from = u, p_to = Some (ci_with ci), p_offer = None, p_answer = None,
                         p_candidate = None, p_type = None\<rparr> s of
                   (Some e, s1) \<Rightarrow> s1
                 | (None, s1) \<Rightarrow> cleanupCall s1)
           else cleanupCall s)
      | _ \<Rightarrow> cleanupCall s)"

definition startCall :: "media_result \<Rightarrow> profile \<Rightarrow> call_type \<Rightarrow> call_state \<Rightarrow> call_state" where
  "startCall m targetUser ty s =
     (case user s of
        None \<Rightarrow> s
      | Some u \<Rightarrow>
          if callInProgress s \<noteq> None then s
          else
            (case getMedia m (Some ty) s of
               (None, s1) \<Rightarrow> s1
             | (Some stream, s1) \<Rightarrow>
                 (let pc = setupPeerConnection stream targetUser;
                      s2 = s1\<lparr>callInProgress :=
                                Some \<lparr>ci_with = targetUser, ci_type = Some ty, isCaller = True\<rparr>,
                              pcRef := Some pc\<rparr>;
                      offer = createOffer pc
                  in (case setLocalDescription pc offer of
                        Inl e \<Rightarrow> s2
                      | Inr pc1 \<Rightarrow>
                          snd (broadcast CallOffer
                                 \<lparr>p_from = u, p_to = Some targetUser, p_offer = Some offer,
                                  p_answer = None, p_candidate = None, p_type = Some ty\<rparr>
                                 (s2\<lparr>pcRef := Some pc1\<rparr>))))))"

text \<open>\<^verbatim>\<open>answerCall\<close>: \<^verbatim>\<open>setIncomingCall(null)\<close> is the last statement, after the broadcast
  of the answer.\<close>

definition answerCall :: "media_result \<Rightarrow> call_state \<Rightarrow> call_state" where
  "answerCall m s =
     (case (incomingCall s, user s) of
        (Some ic, Some u) \<Rightarrow>
          (case getMedia m (p_type ic) s of
             (None, s1) \<Rightarrow> handleHangUp True s1
           | (Some stream, s1) \<Rightarrow>
               (let pc = setupPeerConnection stream (p_from ic);
                    s2 = s1\<lparr>callInProgress :=
                              Some \<lparr>ci_with = p_from ic, ci_type = p_type ic, isCaller = False\<rparr>,
                            pcRef := Some pc\<rparr>
                in (case p_offer ic of
                      None \<Rightarrow> s2
                    | Some offer \<Rightarrow>
                        (case setRemoteDescription pc offer of
                           Inl e \<Rightarrow> s2
                         | Inr pc1 \<Rightarrow>
                             (let answer = createAnswer pc1
                              in (case setLocalDescription pc1 answer of
                                    Inl e \<Rightarrow> s2\<lparr>pcRef := Some pc1\<rparr>
                                  | Inr pc2 \<Rightarrow>
                                      (case broadcast CallAnswer
                                              \<lparr>p_from = u, p_to = Some (p_from ic),
                                               p_offer = None, p_answer = Some answer,
                                               p_candidate = None, p_type = None\<rparr>
                                              (s2\<lparr>pcRef := Some pc2\<rparr>) of
                                         (Some e, s3) \<Rightarrow> s3
                                       | (None, s3) \<Rightarrow> s3\<lparr>incomingCall := None\<rparr>)))))))
      | _ \<Rightarrow> s)"

text \<open>\<^verbatim>\<open>denyCall\<close>: \<^verbatim>\<open>setIncomingCall(null)\<close> follows the broadcast.\<close>

definition denyCall :: "call_state \<Rightarrow> call_state" where
  "denyCall s =
     (case (incomingCall s, user s) of
        (Some ic, Some u) \<Rightarrow>
          (case broadcast HangUp
                  \<lparr>p_from = u, p_to = Some (p_from ic), p_offer = None, p_answer = None,
                   p_candidate = None, p_type = None\<rparr> s of
             (Some e, s1) \<Rightarrow> s1
           | (None, s1) \<Rightarrow> s1\<lparr>incomingCall := None\<rparr>)
      | _ \<Rightarrow> s\<lparr>incomingCall := None\<rparr>)"

text \<open>\<^verbatim>\<open>payload.to?.id === user.id\<close>\<close>

definition addressed_to :: "call_payload \<Rightarrow> profile \<Rightarrow> bool" where
  "addressed_to p u = (case p_to p of None \<Rightarrow> False | Some t \<Rightarrow> pid t = pid u)"

text \<open>The four listeners of the channel. The effect that registers them returns at once
  when there is no user, so without a user nothing is delivered.\<close>

definition on_call_offer :: "call_payload \<Rightarrow> call_state \<Rightarrow> call_state" where
  "on_call_offer p s =
     (case user s of
        None \<Rightarrow> s
      | Some u \<Rightarrow>
          if addressed_to p u \<and> callInProgress s = None \<and> incomingCall s = None
          then s\<lparr>incomingCall := Some p\<rparr>
          else s)"

definition on_call_answer :: "call_payload \<Rightarrow> call_state \<Rightarrow> call_state" where
  "on_call_answer p s =
     (case user s of
        None \<Rightarrow> s
      | Some u \<Rightarrow>
          if addressed_to p u \<and> (case callInProgress s of None \<Rightarrow> False | Some ci \<Rightarrow> isCaller ci)
          then (case pcRef s of
                  None \<Rightarrow> s
                | Some pc \<Rightarrow>
                    (case p_answer p of
                       None \<Rightarrow> s
                     | Some a \<Rightarrow>
                         (case setRemoteDescription pc a of
                            Inl e \<Rightarrow> s
                          | Inr pc1 \<Rightarrow> s\<lparr>pcRef := Some pc1\<rparr>)))
          else s)"

definition on_ice_candidate :: "call_payload \<Rightarrow> call_state \<Rightarrow> call_state" where
  "on_ice_candidate p s =
     (case user s of
        None \<Rightarrow> s
      | Some u \<Rightarrow>
          if addressed_to p u \<and> callInProgress s \<noteq> None
          then (case pcRef s of
                  None \<Rightarrow> s
                | Some pc \<Rightarrow>
                    (case p_candidate p of
                       None \<Rightarrow> s
                     | Some c \<Rightarrow>
                         (case addIceCandidate pc c of
                            Inl e \<Rightarrow> s
                          | Inr pc1 \<Rightarrow> s\<lparr>pcRef := Some pc1\<rparr>)))
          else s)"

definition on_hang_up :: "call_payload \<Rightarrow> call_state \<Rightarrow> call_state" where
  "on_hang_up p s =
     (case user s of
        None \<Rightarrow> s
      | Some u \<Rightarrow>
          (let s1 = (case callInProgress s of
                       None \<Rightarrow> s
                     | Some ci \<Rightarrow>
                         if pid (p_from p) = pid (ci_with ci) then handleHangUp False s else s)
           in (case incomingCall s of
                 None \<Rightarrow> s1
               | Some ic \<Rightarrow>
                   if pid (p_from p) = pid (p_from ic) then s1\<lparr>incomingCall := None\<rparr> else s1)))"

text \<open>The two callbacks \<^verbatim>\<open>setupPeerConnection\<close> installs on the connection.\<close>

definition onicecandidate :: "ice_candidate \<Rightarrow> call_state \<Rightarrow> call_state" where
  "onicecandidate c s =
     (case (pcRef s, user s) of
        (Some pc, Some u) \<Rightarrow>
          snd (broadcast IceCandidate
                 \<lparr>p_from = u, p_to = Some (pc_target pc), p_offer = None, p_answer = None,
                  p_candidate = Some c, p_type = None\<rparr> s)
      | _ \<Rightarrow> s)"

definition ontrack :: "media_stream \<Rightarrow> call_state \<Rightarrow> call_state" where
  "ontrack st s = (case pcRef s of None \<Rightarrow> s | Some pc \<Rightarrow> s\<lparr>remoteStream := Some st\<rparr>)"

definition flip_kind :: "track_kind \<Rightarrow> track \<Rightarrow> track" where
  "flip_kind k t = (if kind t = k then t\<lparr>enabled := \<not> enabled t\<rparr> else t)"

definition toggleMute :: "call_state \<Rightarrow> call_state" where
  "toggleMute s =
     s\<lparr>localStream := map_option (map (flip_kind AudioTrack)) (localStream s),
       isMuted := \<not> isMuted s\<rparr>"

definition toggleCamera :: "call_state \<Rightarrow> call_state" where
  "toggleCamera s =
     s\<lparr>localStream := map_option (map (flip_kind VideoTrack)) (localStream s),
       isCamOff := \<not> isCamOff s\<rparr>"

text \<open>The values \<^verbatim>\<open>cleanupCall\<close> writes to the streams, the flags and the connection.\<close>

definition media_idle :: "call_state \<Rightarrow> bool" where
  "media_idle s \<longleftrightarrow>
     localStream s = None \<and> remoteStream s = None \<and> \<not> isMuted s \<and> \<not> isCamOff s \<and>
     pcRef s = None"

text \<open>The component after its first render: every cell at its initial value, and the
  channel \<^verbatim>\<open>call:<user id>\<close> created by the effect when a user is present.\<close>

definition initial :: "profile option \<Rightarrow> call_state" where
  "initial uo =
     \<lparr>user = uo, incomingCall = None, callInProgress = None, localStream = None,
      remoteStream = None, isMuted = False, isCamOff = False, pcRef = None,
      callChannelRef =
        (case uo of None \<Rightarrow> None | Some u \<Rightarrow> Some \<lparr>chan_name = ''call:'' @ pid u\<rparr>),
      broadcastCalls = [], closedConnections = [], stoppedTracks = []\<rparr>"

section \<open>The PeerJS revision (second document of Auth.tsx)\<close>

text \<open>
  PeerJS is a library outside the repository. A \<^verbatim>\<open>MediaConnection\<close> is kept as the remote
  peer's id with the metadata of the call and a flag that says whether the connection has
  been torn down (by its own \<^verbatim>\<open>close\<close> or by \<^verbatim>\<open>destroy\<close> of the \<^verbatim>\<open>Peer\<close> it belongs to).
  Every request of the component that the library takes (\<^verbatim>\<open>peer.call\<close>, \<^verbatim>\<open>call.answer\<close>,
  \<^verbatim>\<open>call.close\<close>) is appended to \<open>peerOps\<close>; what the library then puts on the wire is not
  part of the model. Two facts of the library enter the callbacks: \<^verbatim>\<open>peer.call\<close> returns
  \<^verbatim>\<open>undefined\<close> when it is given no stream, and \<^verbatim>\<open>answer\<close> raises on a connection that has
  been torn down.
\<close>

record media_connection =
  mc_peer :: string
  mc_metadata :: "(profile \<times> call_type) option"
  mc_destroyed :: bool

record incoming_call =
  ic_from :: profile
  ic_type :: call_type
  peerCall :: media_connection

datatype peer_op =
    PeerCall string "media_stream option" "(profile \<times> call_type) option"
  | PeerAnswer media_connection "media_stream option"
  | PeerClose media_connection

record peer_state =
  user_pj :: "profile option"
  incomingCall_pj :: "incoming_call option"
  callInProgress_pj :: "call_info option"
  localStream_pj :: "media_stream option"
  remoteStream_pj :: "media_stream option"
  isMuted_pj :: bool
  isCamOff_pj :: bool
  mediaError :: "string option"
  peerRef :: "string option"
  activeCallRef :: "media_connection option"
  peerOps :: "peer_op list"
  stoppedTracks_pj :: "track list"

definition media_error_text :: "string \<Rightarrow> call_type \<Rightarrow> string" where
  "media_error_text name ty =
     (if name = ''NotFoundError'' \<or> name = ''DevicesNotFoundError''
      then ''No microphone or camera found.''
      else if name = ''NotAllowedError'' \<or> name = ''PermissionDeniedError''
      then (if ty = Video then ''Microphone and/or Camera access denied.''
            else ''Microphone access denied.'')
      else ''Error accessing media devices.'')"

definition getMedia_peer ::
  "media_result \<Rightarrow> call_type \<Rightarrow> peer_state \<Rightarrow> media_stream option \<times> peer_state" where
  "getMedia_peer m ty s =
     (let s0 = s\<lparr>mediaError := None\<rparr>
      in (case m of
            Inr stream \<Rightarrow>
              (let s1 = s0\<lparr>localStream_pj := Some stream\<rparr>;
                   s2 = (if ty = Video then s1\<lparr>isCamOff_pj := False\<rparr> else s1)
               in (Some stream, s2\<lparr>isMuted_pj := False\<rparr>))
          | Inl name \<Rightarrow>
              (let s1 = s0\<lparr>mediaError := Some (media_error_text name ty),
                           localStream_pj := None, isMuted_pj := True\<rparr>
               in (None, if ty = Video then s1\<lparr>isCamOff_pj := True\<rparr> else s1))))"

definition cleanupCall_peer :: "peer_state \<Rightarrow> peer_state" where
  "cleanupCall_peer s =
     s\<lparr>peerOps := peerOps s @ (case activeCallRef s of None \<Rightarrow> [] | Some c \<Rightarrow> [PeerClose c]),
       activeCallRef := None,
       stoppedTracks_pj :=
         stoppedTracks_pj s @ tracks_of (localStream_pj s) @ tracks_of (remoteStream_pj s),
       localStream_pj := None,
       remoteStream_pj := None,
       callInProgress_pj := None,
       incomingCall_pj := None,
       isMuted_pj := False,
       isCamOff_pj := False,
       mediaError := None\<rparr>"

definition handleHangUp_peer :: "peer_state \<Rightarrow> peer_state" where
  "handleHangUp_peer s = cleanupCall_peer s"

text \<open>
  \<^verbatim>\<open>startCall\<close>. With no stream \<^verbatim>\<open>peerRef.current.call(...)\<close> returns \<^verbatim>\<open>undefined\<close>, which
  is what \<^verbatim>\<open>activeCallRef.current\<close> receives, and the registration \<^verbatim>\<open>call.on('stream', ...)\<close>
  that follows raises. The request is recorded in \<open>peerOps\<close> in both cases.
\<close>

definition startCall_peer ::
  "media_result \<Rightarrow> profile \<Rightarrow> call_type \<Rightarrow> peer_state \<Rightarrow> peer_state" where
  "startCall_peer m targetUser ty s =
     (case (user_pj s, peerRef s) of
        (Some u, Some peer) \<Rightarrow>
          if callInProgress_pj s \<noteq> None then s
          else
            (case getMedia_peer m ty s of
               (stream, s1) \<Rightarrow>
                 s1\<lparr>callInProgress_pj :=
                      Some \<lparr>ci_with = targetUser, ci_type = Some ty, isCaller = True\<rparr>,
                    peerOps := peerOps s1 @ [PeerCall (pid targetUser) stream (Some (u, ty))],
                    activeCallRef :=
                      (case stream of
                         None \<Rightarrow> None
                       | Some st \<Rightarrow>
                           Some \<lparr>mc_peer = pid targetUser, mc_metadata = Some (u, ty),
                                 mc_destroyed = False\<rparr>)\<rparr>)
      | _ \<Rightarrow> s)"

text \<open>
  \<^verbatim>\<open>answerCall\<close>. \<^verbatim>\<open>incomingCall.peerCall.answer(stream!)\<close> raises on a connection that has
  been torn down; the statements after it, down to \<^verbatim>\<open>setIncomingCall(null)\<close>, are then not
  executed.
\<close>

definition answerCall_peer :: "media_result \<Rightarrow> peer_state \<Rightarrow> peer_state" where
  "answerCall_peer m s =
     (case (incomingCall_pj s, user_pj s) of
        (Some ic, Some u) \<Rightarrow>
          (case getMedia_peer m (ic_type ic) s of
             (stream, s1) \<Rightarrow>
               (let s2 = s1\<lparr>callInProgress_pj :=
                              Some \<lparr>ci_with = ic_from ic, ci_type = Some (ic_type ic),
                                    isCaller = False\<rparr>\<rparr>
                in if mc_destroyed (peerCall ic) then s2
                   else s2\<lparr>peerOps := peerOps s2 @ [PeerAnswer (peerCall ic) stream],
                           activeCallRef := Some (peerCall ic),
                           incomingCall_pj := None\<rparr>))
      | _ \<Rightarrow> s)"

definition denyCall_peer :: "peer_state \<Rightarrow> peer_state" where
  "denyCall_peer s =
     (case incomingCall_pj s of
        None \<Rightarrow> s
      | Some ic \<Rightarrow> s\<lparr>peerOps := peerOps s @ [PeerClose (peerCall ic)]\<rparr>)
     \<lparr>incomingCall_pj := None\<rparr>"

text \<open>\<^verbatim>\<open>peer.on('call', ...)\<close>; the effect that creates the peer returns at once when
  there is no user. Reading \<^verbatim>\<open>metadata.from\<close> of a call without metadata throws.\<close>

definition on_call_peer :: "media_connection \<Rightarrow> peer_state \<Rightarrow> peer_state" where
  "on_call_peer call s =
     (case user_pj s of
        None \<Rightarrow> s
      | Some u \<Rightarrow>
          if callInProgress_pj s \<noteq> None \<or> incomingCall_pj s \<noteq> None
          then s\<lparr>peerOps := peerOps s @ [PeerClose call]\<rparr>
          else (case mc_metadata call of
                  None \<Rightarrow> s
                | Some (f, ty) \<Rightarrow>
                    s\<lparr>incomingCall_pj := Some \<lparr>ic_from = f, ic_type = ty, peerCall = call\<rparr>\<rparr>))"

text \<open>
  The effect that creates the \<^verbatim>\<open>Peer\<close> has \<^verbatim>\<open>user\<close>, \<^verbatim>\<open>callInProgress\<close> and \<^verbatim>\<open>incomingCall\<close>
  as dependencies, and its cleanup is \<^verbatim>\<open>peer.destroy(); peerRef.current = null\<close>. After a
  render in which one of the three changed, the cleanup therefore destroys the \<^verbatim>\<open>Peer\<close>,
  which tears down every connection of that \<^verbatim>\<open>Peer\<close>, and the effect creates a new \<^verbatim>\<open>Peer\<close>
  under the user's id (none without a user). The connections the state still refers to
  are torn down from then on. The events PeerJS may emit on them are not part of this
  function.
\<close>

definition peer_effect :: "peer_state \<Rightarrow> peer_state" where
  "peer_effect s =
     s\<lparr>incomingCall_pj :=
         map_option (\<lambda>ic. ic\<lparr>peerCall := (peerCall ic)\<lparr>mc_destroyed := True\<rparr>\<rparr>)
           (incomingCall_pj s),
       activeCallRef := map_option (\<lambda>c. c\<lparr>mc_destroyed := True\<rparr>) (activeCallRef s),
       peerRef := map_option pid (user_pj s)\<rparr>"

definition audio_tracks :: "media_stream option \<Rightarrow> track list" where
  "audio_tracks st = filter (\<lambda>t. kind t = AudioTrack) (tracks_of st)"

definition video_tracks :: "media_stream option \<Rightarrow> track list" where
  "video_tracks st = filter (\<lambda>t. kind t = VideoTrack) (tracks_of st)"

definition toggleMute_peer :: "peer_state \<Rightarrow> peer_state" where
  "toggleMute_peer s =
     (if length (audio_tracks (localStream_pj s)) > 0
      then s\<lparr>localStream_pj := map_option (map (flip_kind AudioTrack)) (localStream_pj s),
             isMuted_pj := \<not> isMuted_pj s\<rparr>
      else s\<lparr>mediaError := Some ''No microphone track available.''\<rparr>)"

definition toggleCamera_peer :: "peer_state \<Rightarrow> peer_state" where
  "toggleCamera_peer s =
     (if length (video_tracks (localStream_pj s)) > 0
      then s\<lparr>localStream_pj := map_option (map (flip_kind VideoTrack)) (localStream_pj s),
             isCamOff_pj := \<not> isCamOff_pj s\<rparr>
      else s\<lparr>mediaError := Some ''No camera track available.''\<rparr>)"

text \<open>The PeerJS revision after its first render; the peer is created with the user's id.\<close>

definition initial_peer :: "profile option \<Rightarrow> peer_state" where
  "initial_peer uo =
     \<lparr>user_pj = uo, incomingCall_pj = None, callInProgress_pj = None, localStream_pj = None,
      remoteStream_pj = None, isMuted_pj = False, isCamOff_pj = False, mediaError = None,
      peerRef = map_option pid uo, activeCallRef = None, peerOps = [],
      stoppedTracks_pj = []\<rparr>"

section \<open>Concrete clients used in witnesses and counterexamples\<close>

definition alice :: profile where
  "alice = \<lparr>pid = ''a'', username = ''alice'', display_name = ''Alice''\<rparr>"

definition bob :: profile where
  "bob = \<lparr>pid = ''b'', username = ''bob'', display_name = ''Bob''\<rparr>"

definition carol :: profile where
  "carol = \<lparr>pid = ''c'', username = ''carol'', display_name = ''Carol''\<rparr>"

definition mic :: media_stream where
  "mic = [\<lparr>kind = AudioTrack, enabled = True\<rparr>]"

definition offer_from :: "profile \<Rightarrow> profile \<Rightarrow> call_payload" where
  "offer_from f t =
     \<lparr>p_from = f, p_to = Some t,
      p_offer = Some \<lparr>sdp_type = SdpOffer, sdp_media = [AudioTrack]\<rparr>,
      p_answer = None, p_candidate = None, p_type = Some Audio\<rparr>"

definition answer_from :: "profile \<Rightarrow> profile \<Rightarrow> call_payload" where
  "answer_from f t =
     \<lparr>p_from = f, p_to = Some t, p_offer = None,
      p_answer = Some \<lparr>sdp_type = SdpAnswer, sdp_media = [AudioTrack]\<rparr>,
      p_candidate = None, p_type = None\<rparr>"

definition candidate_from :: "profile \<Rightarrow> profile \<Rightarrow> call_payload" where
  "candidate_from f t =
     \<lparr>p_from = f, p_to = Some t, p_offer = None, p_answer = None,
      p_candidate = Some ''candidate:1'', p_type = None\<rparr>"

definition hangup_from :: "profile \<Rightarrow> profile \<Rightarrow> call_payload" where
  "hangup_from f t =
     \<lparr>p_from = f, p_to = Some t, p_offer = None, p_answer = None,
      p_candidate = None, p_type = None\<rparr>"

text \<open>Alice with an incoming call from Carol ringing, and Alice ringing Bob.\<close>

definition ringing_alice :: call_state where
  "ringing_alice = on_call_offer (offer_from carol alice) (initial (Some alice))"

definition calling_bob :: call_state where
  "calling_bob = startCall (Inr mic) bob Audio (initial (Some alice))"

text \<open>An incoming connection as PeerJS hands it to \<^verbatim>\<open>peer.on('call', ...)\<close>, and Alice
  with Carol's call ringing in the PeerJS revision, after the render that shows the ring
  and its effect.\<close>

definition call_from :: "profile \<Rightarrow> media_connection" where
  "call_from f = \<lparr>mc_peer = pid f, mc_metadata = Some (f, Audio), mc_destroyed = False\<rparr>"

definition ringing_alice_peer :: peer_state where
  "ringing_alice_peer = peer_effect (on_call_peer (call_from carol) (initial_peer (Some alice)))"

section \<open>Evaluated example states\<close>

lemmas pc_defs = setupPeerConnection_def new_pc_def addTrack_def createOffer_def
  createAnswer_def setLocalDescription_def setRemoteDescription_def addIceCandidate_def

lemma ringing_alice_eq:
  "ringing_alice = (initial (Some alice))\<lparr>incomingCall := Some (offer_from carol alice)\<rparr>"
  by (simp add: ringing_alice_def on_call_offer_def initial_def addressed_to_def offer_from_def)

lemma ringing_alice_peer_eq:
  "ringing_alice_peer =
     (initial_peer (Some alice))\<lparr>incomingCall_pj :=
        Some \<lparr>ic_from = carol, ic_type = Audio,
              peerCall = (call_from carol)\<lparr>mc_destroyed := True\<rparr>\<rparr>\<rparr>"
  by (simp add: ringing_alice_peer_def peer_effect_def on_call_peer_def initial_peer_def
      call_from_def)

lemma calling_bob_fields:
  "callInProgress calling_bob = Some \<lparr>ci_with = bob, ci_type = Some Audio, isCaller = True\<rparr>"
  "incomingCall calling_bob = None"
  "user calling_bob = Some alice"
  by (simp_all add: calling_bob_def startCall_def initial_def getMedia_def Let_def
      pc_defs mic_def broadcast_def)

lemma calling_bob_pc:
  "pcRef calling_bob =
     Some \<lparr>pc_target = bob, senders = [AudioTrack], signalingState = HaveLocalOffer,
           localDescription = Some \<lparr>sdp_type = SdpOffer, sdp_media = [AudioTrack]\<rparr>,
           remoteDescription = None, iceCandidates = []\<rparr>"
  by (simp add: calling_bob_def startCall_def getMedia_def Let_def broadcast_def
      initial_def pc_defs mic_def)

lemma answered_carol_fields:
  "user (answerCall (Inr mic) ringing_alice) = Some alice"
  "callInProgress (answerCall (Inr mic) ringing_alice) =
     Some \<lparr>ci_with = carol, ci_type = Some Audio, isCaller = False\<rparr>"
  "pcRef (answerCall (Inr mic) ringing_alice) =
     Some \<lparr>pc_target = carol, senders = [AudioTrack], signalingState = Stable,
           localDescription = Some \<lparr>sdp_type = SdpAnswer, sdp_media = [AudioTrack]\<rparr>,
           remoteDescription = Some \<lparr>sdp_type = SdpOffer, sdp_media = [AudioTrack]\<rparr>,
           iceCandidates = []\<rparr>"
  by (simp_all add: ringing_alice_eq answerCall_def getMedia_def Let_def broadcast_def
      initial_def pc_defs mic_def offer_from_def)

lemma startCall_in_call_rejected:
  "callInProgress s \<noteq> None \<Longrightarrow> startCall m target ty s = s"
  "callInProgress_pj t \<noteq> None \<Longrightarrow> startCall_peer m target ty t = t"
  by (auto simp: startCall_def startCall_peer_def split: option.splits)

section \<open>The claims\<close>

subsection \<open>C1: a single call session\<close>

text \<open>
  C1 asks that at most one call session exists at any instant and that \<^verbatim>\<open>startCall\<close> is
  rejected, with no state changed, while a call is in progress or an incoming call is
  ringing. The guard of \<^verbatim>\<open>startCall\<close> looks at \<^verbatim>\<open>callInProgress\<close> only. Evaluated in both
  revisions on Alice, who has an incoming call from Carol ringing and starts a call to Bob:
  the incoming call stays, a call in progress with Bob is recorded next to it, and the
  offer is attempted (one call of \<^verbatim>\<open>broadcast\<close> for \<^verbatim>\<open>call-offer\<close>; one \<^verbatim>\<open>peer.call\<close>).
\<close>

theorem startCall_during_incoming_ring:
  "incomingCall (startCall (Inr mic) bob Audio ringing_alice) = Some (offer_from carol alice)
   \<and> callInProgress (startCall (Inr mic) bob Audio ringing_alice) =
       Some \<lparr>ci_with = bob, ci_type = Some Audio, isCaller = True\<rparr>
   \<and> map fst (broadcastCalls (startCall (Inr mic) bob Audio ringing_alice)) = [CallOffer]
   \<and> incomingCall_pj (startCall_peer (Inr mic) bob Audio ringing_alice_peer) =
       Some \<lparr>ic_from = carol, ic_type = Audio,
             peerCall = (call_from carol)\<lparr>mc_destroyed := True\<rparr>\<rparr>
   \<and> callInProgress_pj (startCall_peer (Inr mic) bob Audio ringing_alice_peer) =
       Some \<lparr>ci_with = bob, ci_type = Some Audio, isCaller = True\<rparr>
   \<and> peerOps (startCall_peer (Inr mic) bob Audio ringing_alice_peer) =
       [PeerCall (pid bob) (Some mic) (Some (alice, Audio))]"
  by (simp add: ringing_alice_eq ringing_alice_peer_eq startCall_def startCall_peer_def
      getMedia_def getMedia_peer_def Let_def broadcast_def initial_def initial_peer_def
      pc_defs mic_def)

subsection \<open>C2: an offer that arrives while busy\<close>

text \<open>
  C2, as stated, fails in the broadcast-channel revision: Alice has Carol's call ringing,
  Bob's offer arrives, and the state is returned as it was, with no broadcast attempted.
\<close>

theorem busy_offer_dropped:
  "incomingCall ringing_alice = Some (offer_from carol alice)
   \<and> on_call_offer (offer_from bob alice) ringing_alice = ringing_alice
   \<and> broadcastCalls (on_call_offer (offer_from bob alice) ringing_alice) = []"
  by (simp add: ringing_alice_eq on_call_offer_def initial_def)

text \<open>
  C2 (amended). An offer that arrives while there is a call in progress or an incoming call
  ringing is never queued and changes no session state. The PeerJS revision closes the
  offered connection at once and changes nothing else; the broadcast-channel revision
  sends nothing back and returns the state unchanged.
\<close>

theorem busy_offer_keeps_state:
  assumes "callInProgress s \<noteq> None \<or> incomingCall s \<noteq> None"
    and "callInProgress_pj t \<noteq> None \<or> incomingCall_pj t \<noteq> None"
    and "user_pj t = Some u"
  shows "on_call_offer p s = s
         \<and> on_call_peer c t = t\<lparr>peerOps := peerOps t @ [PeerClose c]\<rparr>"
  using assms by (auto simp: on_call_offer_def on_call_peer_def split: option.splits)

theorem busy_offer_keeps_state_witness:
  "on_call_offer (offer_from bob alice) ringing_alice = ringing_alice
   \<and> on_call_peer (call_from bob) ringing_alice_peer =
       ringing_alice_peer\<lparr>peerOps := [PeerClose (call_from bob)]\<rparr>"
proof -
  have a: "callInProgress ringing_alice \<noteq> None \<or> incomingCall ringing_alice \<noteq> None"
    by (simp add: ringing_alice_eq)
  have b: "callInProgress_pj ringing_alice_peer \<noteq> None
           \<or> incomingCall_pj ringing_alice_peer \<noteq> None"
    by (simp add: ringing_alice_peer_eq)
  have c: "user_pj ringing_alice_peer = Some alice"
    by (simp add: ringing_alice_peer_eq initial_peer_def)
  have d: "peerOps ringing_alice_peer = []"
    by (simp add: ringing_alice_peer_eq initial_peer_def)
  from busy_offer_keeps_state [OF a b c, of "offer_from bob alice" "call_from bob"] d
  show ?thesis by simp
qed

subsection \<open>C3: candidates that arrive early\<close>

text \<open>
  C3, as stated, fails: the component has no buffer. Carol's candidate reaches Alice while
  Carol's call is still ringing; Alice then answers, and the connection holds no candidate.
  Had the candidate arrived after the answer, the connection would hold it.
\<close>

theorem early_candidate_is_lost:
  "map_option iceCandidates
     (pcRef (answerCall (Inr mic) (on_ice_candidate (candidate_from carol alice) ringing_alice)))
     = Some []
   \<and> map_option iceCandidates
       (pcRef (on_ice_candidate (candidate_from carol alice) (answerCall (Inr mic) ringing_alice)))
       = Some [''candidate:1'']"
  by (simp add: ringing_alice_eq answerCall_def on_ice_candidate_def
      getMedia_def Let_def broadcast_def initial_def pc_defs mic_def addressed_to_def
      candidate_from_def offer_from_def alice_def)

text \<open>The same on the caller's side, where the platform rejects a candidate added before
  the remote description: Bob's candidate overtakes Bob's answer.\<close>

lemma early_candidate_is_lost_by_caller:
  "map_option iceCandidates
     (pcRef (on_call_answer (answer_from bob alice)
               (on_ice_candidate (candidate_from bob alice) calling_bob)))
     = Some []
   \<and> map_option iceCandidates
       (pcRef (on_ice_candidate (candidate_from bob alice)
                 (on_call_answer (answer_from bob alice) calling_bob)))
       = Some [''candidate:1'']"
  by (simp add: calling_bob_def startCall_def on_ice_candidate_def on_call_answer_def
      getMedia_def Let_def broadcast_def initial_def pc_defs mic_def addressed_to_def
      candidate_from_def answer_from_def alice_def)

text \<open>
  C3 (amended). A candidate message addressed to the local user is handed to the peer
  connection at once, and only when a call is in progress; nothing is buffered. Received
  with no call in progress, or before the remote description is set, it leaves the state
  unchanged, so it is not applied later either. Received with a call in progress on an
  open connection whose remote description is set, it is appended to the connection's
  candidates.
\<close>

theorem candidate_forwarded_or_discarded:
  assumes "user s = Some u" and "addressed_to p u"
  shows "(callInProgress s = None \<longrightarrow> on_ice_candidate p s = s)
         \<and> (\<forall>pc. pcRef s = Some pc \<and> remoteDescription pc = None \<longrightarrow> on_ice_candidate p s = s)
         \<and> (\<forall>pc c. callInProgress s \<noteq> None \<and> pcRef s = Some pc \<and> p_candidate p = Some c
                \<and> remoteDescription pc \<noteq> None \<and> signalingState pc \<noteq> Closed \<longrightarrow>
              on_ice_candidate p s =
                s\<lparr>pcRef := Some (pc\<lparr>iceCandidates := iceCandidates pc @ [c]\<rparr>)\<rparr>)"
  using assms
  by (auto simp: on_ice_candidate_def addIceCandidate_def split: option.splits)

theorem candidate_forwarded_or_discarded_witness:
  "on_ice_candidate (candidate_from carol alice) ringing_alice = ringing_alice
   \<and> on_ice_candidate (candidate_from bob alice) calling_bob = calling_bob
   \<and> map_option iceCandidates
       (pcRef (on_ice_candidate (candidate_from carol alice) (answerCall (Inr mic) ringing_alice)))
       = Some [''candidate:1'']"
proof -
  have ad: "addressed_to (candidate_from carol alice) alice"
           "addressed_to (candidate_from bob alice) alice"
    by (simp_all add: addressed_to_def candidate_from_def)
  have u1: "user ringing_alice = Some alice" by (simp add: ringing_alice_eq initial_def)
  have n1: "callInProgress ringing_alice = None" by (simp add: ringing_alice_eq initial_def)
  from candidate_forwarded_or_discarded [OF u1 ad(1)] n1
  have 1: "on_ice_candidate (candidate_from carol alice) ringing_alice = ringing_alice"
    by simp
  from candidate_forwarded_or_discarded [OF calling_bob_fields(3) ad(2)]
  have 2: "on_ice_candidate (candidate_from bob alice) calling_bob = calling_bob"
    by (simp add: calling_bob_pc)
  from candidate_forwarded_or_discarded [OF answered_carol_fields(1) ad(1)]
  have 3: "map_option iceCandidates
       (pcRef (on_ice_candidate (candidate_from carol alice) (answerCall (Inr mic) ringing_alice)))
       = Some [''candidate:1'']"
    by (simp add: answered_carol_fields candidate_from_def)
  from 1 2 3 show ?thesis by simp
qed

subsection \<open>C4: applying an answer\<close>

text \<open>
  C4, as stated, fails: the listener never looks at the sender. Alice is ringing Bob; an
  answer sent by Carol and addressed to Alice becomes the remote description of the
  connection to Bob.
\<close>

theorem answer_from_stranger_applied:
  "pid carol \<noteq> pid bob
   \<and> map_option ci_with (callInProgress calling_bob) = Some bob
   \<and> map_option remoteDescription (pcRef calling_bob) = Some None
   \<and> map_option remoteDescription (pcRef (on_call_answer (answer_from carol alice) calling_bob))
       = Some (Some \<lparr>sdp_type = SdpAnswer, sdp_media = [AudioTrack]\<rparr>)"
  by (simp add: calling_bob_fields calling_bob_pc on_call_answer_def setRemoteDescription_def
      addressed_to_def answer_from_def carol_def bob_def)

text \<open>
  C4 (amended). An inbound answer is applied as the remote description only when it is
  addressed to the local user, a call is in progress and the local side is the caller;
  otherwise the connection and all state are unchanged. The sender is not compared with
  the peer of the session: while the connection awaits an answer, an answer addressed to
  the local user is applied whoever sent it.
\<close>

theorem answer_applied_by_recipient:
  assumes "user s = Some u"
  shows "(\<not> (addressed_to p u \<and> (\<exists>ci. callInProgress s = Some ci \<and> isCaller ci)) \<longrightarrow>
            on_call_answer p s = s)
         \<and> (\<forall>ci pc a. addressed_to p u \<and> callInProgress s = Some ci \<and> isCaller ci
                \<and> pcRef s = Some pc \<and> signalingState pc = HaveLocalOffer
                \<and> p_answer p = Some a \<and> sdp_type a = SdpAnswer \<longrightarrow>
              on_call_answer (p\<lparr>p_from := sender\<rparr>) s =
                s\<lparr>pcRef := Some (pc\<lparr>signalingState := Stable, remoteDescription := Some a\<rparr>)\<rparr>)"
  using assms
  by (auto simp: on_call_answer_def setRemoteDescription_def addressed_to_def
      split: option.splits)

theorem answer_applied_by_recipient_witness:
  "on_call_answer (answer_from bob alice) (answerCall (Inr mic) ringing_alice)
     = answerCall (Inr mic) ringing_alice
   \<and> map_option remoteDescription
       (pcRef (on_call_answer ((answer_from bob alice)\<lparr>p_from := carol\<rparr>) calling_bob))
       = Some (Some \<lparr>sdp_type = SdpAnswer, sdp_media = [AudioTrack]\<rparr>)"
proof -
  have ad: "addressed_to (answer_from bob alice) alice"
    by (simp add: addressed_to_def answer_from_def)
  from answer_applied_by_recipient [OF answered_carol_fields(1), of "answer_from bob alice"]
  have 1: "on_call_answer (answer_from bob alice) (answerCall (Inr mic) ringing_alice)
             = answerCall (Inr mic) ringing_alice"
    by (simp add: answered_carol_fields)
  from answer_applied_by_recipient [OF calling_bob_fields(3), of "answer_from bob alice" carol] ad
  have 2: "map_option remoteDescription
       (pcRef (on_call_answer ((answer_from bob alice)\<lparr>p_from := carol\<rparr>) calling_bob))
       = Some (Some \<lparr>sdp_type = SdpAnswer, sdp_media = [AudioTrack]\<rparr>)"
    by (simp add: calling_bob_fields calling_bob_pc answer_from_def)
  from 1 2 show ?thesis by simp
qed

subsection \<open>C5: starting a call without media\<close>

text \<open>
  C5, as stated, fails in the broadcast-channel revision, whose \<^verbatim>\<open>startCall\<close> returns when
  \<^verbatim>\<open>getMedia\<close> yields no stream: no call in progress is recorded and no offer is attempted.
\<close>

theorem startCall_media_failure_aborts:
  "callInProgress (startCall (Inl ''NotAllowedError'') bob Audio (initial (Some alice))) = None
   \<and> broadcastCalls (startCall (Inl ''NotAllowedError'') bob Audio (initial (Some alice))) = []"
  by (simp add: startCall_def getMedia_def initial_def)

text \<open>
  C5 (amended). If local media acquisition fails during \<^verbatim>\<open>startCall\<close>, the PeerJS revision
  still proceeds: the call in progress is recorded with the local side as caller,
  \<^verbatim>\<open>peer.call\<close> is requested with no stream, and \<^verbatim>\<open>mediaError\<close> holds the message for the
  failure. The broadcast-channel revision abandons the attempt: the state is unchanged
  and no offer is sent.
\<close>

theorem startCall_media_failure:
  assumes "user_pj t = Some u" and "peerRef t = Some pr" and "callInProgress_pj t = None"
  shows "callInProgress_pj (startCall_peer (Inl e) target ty t) =
           Some \<lparr>ci_with = target, ci_type = Some ty, isCaller = True\<rparr>
         \<and> peerOps (startCall_peer (Inl e) target ty t) =
             peerOps t @ [PeerCall (pid target) None (Some (u, ty))]
         \<and> localStream_pj (startCall_peer (Inl e) target ty t) = None
         \<and> mediaError (startCall_peer (Inl e) target ty t) = Some (media_error_text e ty)
         \<and> startCall (Inl e) target ty s = s"
  using assms
  by (auto simp: startCall_peer_def getMedia_peer_def Let_def startCall_def getMedia_def
      split: option.splits)

theorem startCall_media_failure_witness:
  "callInProgress_pj (startCall_peer (Inl ''NotAllowedError'') bob Audio (initial_peer (Some alice)))
     = Some \<lparr>ci_with = bob, ci_type = Some Audio, isCaller = True\<rparr>
   \<and> peerOps (startCall_peer (Inl ''NotAllowedError'') bob Audio (initial_peer (Some alice)))
       = [PeerCall ''b'' None (Some (alice, Audio))]
   \<and> mediaError (startCall_peer (Inl ''NotAllowedError'') bob Audio (initial_peer (Some alice)))
       = Some ''Microphone access denied.''
   \<and> startCall (Inl ''NotAllowedError'') bob Audio (initial (Some alice)) = initial (Some alice)"
proof -
  have a: "user_pj (initial_peer (Some alice)) = Some alice" by (simp add: initial_peer_def)
  have b: "peerRef (initial_peer (Some alice)) = Some (pid alice)" by (simp add: initial_peer_def)
  have c: "callInProgress_pj (initial_peer (Some alice)) = None" by (simp add: initial_peer_def)
  have d: "peerOps (initial_peer (Some alice)) = []" by (simp add: initial_peer_def)
  from startCall_media_failure
         [OF a b c, of "''NotAllowedError''" bob Audio "initial (Some alice)"] d
  show ?thesis by (simp add: media_error_text_def bob_def)
qed

subsection \<open>C6: answering without media\<close>




text \<open>
  Two things the amended claim leaves open. In the broadcast-channel revision
  \<^verbatim>\<open>answerCall\<close> reuses \<^verbatim>\<open>handleHangUp(true)\<close> to deny, and \<^verbatim>\<open>handleHangUp\<close> broadcasts only
  when a call is in progress, which an incoming call that is being answered is not: no
  hang-up is even attempted. In the PeerJS revision the connection of a ringing call has
  been torn down by the effect before it can be answered, so \<^verbatim>\<open>answer\<close> raises and the
  incoming call stays.
\<close>

lemma answerCall_media_failure_sends_nothing:
  "callInProgress s = None \<Longrightarrow> broadcastCalls (answerCall (Inl e) s) = broadcastCalls s"
  by (simp add: answerCall_def getMedia_def handleHangUp_def cleanupCall_def
      split: option.splits)

lemma answerCall_peer_on_destroyed_connection:
  "incomingCall_pj (answerCall_peer m ringing_alice_peer) = incomingCall_pj ringing_alice_peer
   \<and> activeCallRef (answerCall_peer m ringing_alice_peer) = None
   \<and> peerOps (answerCall_peer m ringing_alice_peer) = []"
  by (cases m)
     (simp_all add: ringing_alice_peer_eq answerCall_peer_def getMedia_peer_def Let_def
        initial_peer_def call_from_def)

subsection \<open>C7: toggling the microphone\<close>

text \<open>
  C7, as stated, fails in the broadcast-channel revision, which has no error state and
  negates the flag whatever the stream holds: with no local stream, \<^verbatim>\<open>toggleMute\<close>
  turns \<^verbatim>\<open>isMuted\<close> from false to true.
\<close>

theorem toggleMute_without_audio_track:
  "audio_tracks (localStream (initial (Some alice))) = []
   \<and> \<not> isMuted (initial (Some alice))
   \<and> isMuted (toggleMute (initial (Some alice)))"
  by (simp add: initial_def toggleMute_def audio_tracks_def tracks_of_def)

text \<open>
  C7 (amended). In the PeerJS revision, \<^verbatim>\<open>toggleMute\<close> with no audio track in the local
  stream sets the error message and leaves the muted flag and the stream unchanged; with
  audio tracks it flips the enabled flag of every audio track, leaves the other tracks
  alone and negates the muted flag. In the broadcast-channel revision \<^verbatim>\<open>toggleMute\<close>
  always flips every audio track and negates the muted flag, also when there is no audio
  track, and sets no error.
\<close>

theorem toggleMute_cases:
  "(audio_tracks (localStream_pj t) = [] \<longrightarrow>
      mediaError (toggleMute_peer t) = Some ''No microphone track available.''
      \<and> isMuted_pj (toggleMute_peer t) = isMuted_pj t
      \<and> localStream_pj (toggleMute_peer t) = localStream_pj t)
   \<and> (audio_tracks (localStream_pj t) \<noteq> [] \<longrightarrow>
        isMuted_pj (toggleMute_peer t) = (\<not> isMuted_pj t)
        \<and> mediaError (toggleMute_peer t) = mediaError t
        \<and> tracks_of (localStream_pj (toggleMute_peer t)) =
            map (flip_kind AudioTrack) (tracks_of (localStream_pj t)))
   \<and> isMuted (toggleMute s) = (\<not> isMuted s)
   \<and> tracks_of (localStream (toggleMute s)) =
       map (flip_kind AudioTrack) (tracks_of (localStream s))
   \<and> kind (flip_kind AudioTrack tr) = kind tr
   \<and> enabled (flip_kind AudioTrack tr) =
       (if kind tr = AudioTrack then \<not> enabled tr else enabled tr)"
  by (cases "localStream_pj t"; cases "localStream s")
     (simp_all add: toggleMute_peer_def toggleMute_def tracks_of_def flip_kind_def)

theorem toggleMute_cases_witness:
  "mediaError (toggleMute_peer (initial_peer (Some alice))) =
     Some ''No microphone track available.''
   \<and> isMuted_pj (toggleMute_peer (initial_peer (Some alice))) = False
   \<and> isMuted_pj (toggleMute_peer ((initial_peer (Some alice))\<lparr>localStream_pj := Some mic\<rparr>))
   \<and> tracks_of (localStream_pj
        (toggleMute_peer ((initial_peer (Some alice))\<lparr>localStream_pj := Some mic\<rparr>))) =
       [\<lparr>kind = AudioTrack, enabled = False\<rparr>]"
proof -
  have a: "audio_tracks (localStream_pj (initial_peer (Some alice))) = []"
    by (simp add: initial_peer_def audio_tracks_def tracks_of_def)
  have b: "audio_tracks (localStream_pj ((initial_peer (Some alice))\<lparr>localStream_pj := Some mic\<rparr>))
             \<noteq> []"
    by (simp add: audio_tracks_def tracks_of_def mic_def)
  have c: "isMuted_pj (initial_peer (Some alice)) = False" by (simp add: initial_peer_def)
  from toggleMute_cases [of "initial_peer (Some alice)"] a c
  have 1: "mediaError (toggleMute_peer (initial_peer (Some alice))) =
             Some ''No microphone track available.''
           \<and> isMuted_pj (toggleMute_peer (initial_peer (Some alice))) = False"
    by simp
  from toggleMute_cases [of "(initial_peer (Some alice))\<lparr>localStream_pj := Some mic\<rparr>"] b c
  have 2: "isMuted_pj (toggleMute_peer ((initial_peer (Some alice))\<lparr>localStream_pj := Some mic\<rparr>))
           \<and> tracks_of (localStream_pj
               (toggleMute_peer ((initial_peer (Some alice))\<lparr>localStream_pj := Some mic\<rparr>))) =
             [\<lparr>kind = AudioTrack, enabled = False\<rparr>]"
    by (simp add: tracks_of_def mic_def flip_kind_def)
  from 1 2 show ?thesis by simp
qed

subsection \<open>C8: a hang-up from somebody else\<close>

text \<open>
  C8. A \<^verbatim>\<open>hang-up\<close> message whose sender's id is neither the id of the peer of the call in
  progress nor the id of the sender of the pending incoming call leaves the whole state as
  it was: session, streams, flags and connection.
\<close>

theorem foreign_hangup_is_noop:
  assumes "\<forall>ci. callInProgress s = Some ci \<longrightarrow> pid (p_from p) \<noteq> pid (ci_with ci)"
    and "\<forall>ic. incomingCall s = Some ic \<longrightarrow> pid (p_from p) \<noteq> pid (p_from ic)"
  shows "on_hang_up p s = s"
  using assms by (auto simp: on_hang_up_def Let_def split: option.splits)

theorem foreign_hangup_is_noop_witness:
  "callInProgress calling_bob = Some \<lparr>ci_with = bob, ci_type = Some Audio, isCaller = True\<rparr>
   \<and> pid (p_from (hangup_from carol alice)) \<noteq> pid bob
   \<and> on_hang_up (hangup_from carol alice) calling_bob = calling_bob"
proof -
  have ne: "pid (p_from (hangup_from carol alice)) \<noteq> pid bob"
    by (simp add: hangup_from_def carol_def bob_def)
  have h1: "\<forall>ci. callInProgress calling_bob = Some ci \<longrightarrow>
              pid (p_from (hangup_from carol alice)) \<noteq> pid (ci_with ci)"
    using ne by (simp add: calling_bob_fields)
  have h2: "\<forall>ic. incomingCall calling_bob = Some ic \<longrightarrow>
              pid (p_from (hangup_from carol alice)) \<noteq> pid (p_from ic)"
    by (simp add: calling_bob_fields)
  from foreign_hangup_is_noop [OF h1 h2] ne show ?thesis by (simp add: calling_bob_fields)
qed

subsection \<open>C9: denying an incoming call\<close>

text \<open>
  C9 asks that denying a ringing incoming call sends exactly one hang-up addressed to the
  sender of that call and leaves the local media state unchanged. In the
  broadcast-channel revision \<^verbatim>\<open>denyCall\<close> means to send it (its comment says so) but calls
  \<^verbatim>\<open>broadcast\<close> on the object of the user's own channel, which has no such member.
  Evaluated on Alice with Carol's call ringing: the one call of \<^verbatim>\<open>broadcast\<close> raises,
  nothing is transmitted, and the incoming call is still there afterwards.
\<close>

theorem denyCall_raises_before_clearing:
  "map_option chan_name (callChannelRef ringing_alice) = Some ''call:a''
   \<and> broadcastCalls ringing_alice = []
   \<and> fst (broadcast HangUp (hangup_from alice carol) ringing_alice) = Some TypeError
   \<and> broadcastCalls (denyCall ringing_alice) = [(HangUp, hangup_from alice carol)]
   \<and> incomingCall (denyCall ringing_alice) = Some (offer_from carol alice)"
  by (simp add: ringing_alice_eq denyCall_def broadcast_def initial_def hangup_from_def
      offer_from_def alice_def)

text \<open>The same for every state with an incoming call, a user and a channel; what holds of
  the claim in the broadcast-channel revision, that the local media state is left alone;
  and the PeerJS revision, which does what the claim says: one \<^verbatim>\<open>close\<close> of the connection of
  the incoming call, the incoming call cleared, the local media state untouched.\<close>

lemma denyCall_on_channel:
  assumes "incomingCall s = Some ic" and "user s = Some u" and "callChannelRef s = Some ch"
  shows "denyCall s =
           s\<lparr>broadcastCalls := broadcastCalls s @
               [(HangUp, \<lparr>p_from = u, p_to = Some (p_from ic), p_offer = None, p_answer = None,
                         p_candidate = None, p_type = None\<rparr>)]\<rparr>"
  using assms by (simp add: denyCall_def broadcast_def)

lemma denyCall_keeps_media:
  "localStream (denyCall s) = localStream s \<and> isMuted (denyCall s) = isMuted s
   \<and> isCamOff (denyCall s) = isCamOff s \<and> stoppedTracks (denyCall s) = stoppedTracks s"
  by (simp add: denyCall_def broadcast_def split: option.splits)

lemma denyCall_peer_closes_once:
  assumes "incomingCall_pj t = Some ic'"
  shows "peerOps (denyCall_peer t) = peerOps t @ [PeerClose (peerCall ic')]
         \<and> localStream_pj (denyCall_peer t) = localStream_pj t
         \<and> isMuted_pj (denyCall_peer t) = isMuted_pj t
         \<and> isCamOff_pj (denyCall_peer t) = isCamOff_pj t
         \<and> stoppedTracks_pj (denyCall_peer t) = stoppedTracks_pj t
         \<and> incomingCall_pj (denyCall_peer t) = None"
  using assms by (simp add: denyCall_peer_def)

subsection \<open>C10: call actions while idle\<close>

text \<open>
  C10, as stated, fails for \<^verbatim>\<open>handleHangUp(true)\<close>, which always ends in \<^verbatim>\<open>cleanupCall\<close>:
  after \<^verbatim>\<open>toggleMute\<close> on the component as first rendered there is neither a call in
  progress nor an incoming call and the muted flag is set; hanging up clears it.
\<close>

theorem idle_hangup_resets_muted:
  "callInProgress (toggleMute (initial (Some alice))) = None
   \<and> incomingCall (toggleMute (initial (Some alice))) = None
   \<and> isMuted (toggleMute (initial (Some alice)))
   \<and> \<not> isMuted (handleHangUp True (toggleMute (initial (Some alice))))"
  by (simp add: toggleMute_def initial_def handleHangUp_def cleanupCall_def)

text \<open>
  C10 (amended). With neither a call in progress nor an incoming call, \<^verbatim>\<open>answerCall\<close> and
  \<^verbatim>\<open>denyCall\<close> return the state they were given: no broadcast is attempted and nothing
  changes. \<^verbatim>\<open>handleHangUp(true)\<close> attempts no broadcast either and leaves the incoming call
  and the call in progress at null, but it runs the cleanup: both streams are null and
  the muted and camera flags are false afterwards. It returns the state unchanged when
  the streams, the flags and the connection already have these values.
\<close>

theorem idle_actions:
  assumes "callInProgress s = None" and "incomingCall s = None"
  shows "answerCall m s = s
         \<and> denyCall s = s
         \<and> broadcastCalls (handleHangUp True s) = broadcastCalls s
         \<and> incomingCall (handleHangUp True s) = None
         \<and> callInProgress (handleHangUp True s) = None
         \<and> localStream (handleHangUp True s) = None
         \<and> remoteStream (handleHangUp True s) = None
         \<and> \<not> isMuted (handleHangUp True s)
         \<and> \<not> isCamOff (handleHangUp True s)
         \<and> (media_idle s \<longrightarrow> handleHangUp True s = s)"
proof -
  have a: "answerCall m s = s" using assms(2) by (simp add: answerCall_def)
  have d: "denyCall s = s" using assms(2) by (simp add: denyCall_def)
  have h: "handleHangUp True s = cleanupCall s"
    using assms(1) by (simp add: handleHangUp_def)
  have f: "broadcastCalls (cleanupCall s) = broadcastCalls s
           \<and> incomingCall (cleanupCall s) = None \<and> callInProgress (cleanupCall s) = None
           \<and> localStream (cleanupCall s) = None \<and> remoteStream (cleanupCall s) = None
           \<and> \<not> isMuted (cleanupCall s) \<and> \<not> isCamOff (cleanupCall s)"
    by (simp add: cleanupCall_def)
  have i: "media_idle s \<longrightarrow> cleanupCall s = s"
    using assms by (simp add: cleanupCall_def media_idle_def tracks_of_def)
  from a d h f i show ?thesis by simp
qed

theorem idle_actions_witness:
  "answerCall (Inr mic) (initial (Some alice)) = initial (Some alice)
   \<and> denyCall (initial (Some alice)) = initial (Some alice)
   \<and> handleHangUp True (initial (Some alice)) = initial (Some alice)
   \<and> \<not> isMuted (handleHangUp True (toggleMute (initial (Some alice))))"
proof -
  have c: "callInProgress (initial (Some alice)) = None"
    and i: "incomingCall (initial (Some alice)) = None"
    and m: "media_idle (initial (Some alice))"
    by (simp_all add: initial_def media_idle_def)
  have c': "callInProgress (toggleMute (initial (Some alice))) = None"
    and i': "incomingCall (toggleMute (initial (Some alice))) = None"
    by (simp_all add: toggleMute_def initial_def)
  from idle_actions [OF c i, of "Inr mic"] m
  have 1: "answerCall (Inr mic) (initial (Some alice)) = initial (Some alice)
           \<and> denyCall (initial (Some alice)) = initial (Some alice)
           \<and> handleHangUp True (initial (Some alice)) = initial (Some alice)"
    by simp
  from idle_actions [OF c' i', of "Inr mic"]
  have 2: "\<not> isMuted (handleHangUp True (toggleMute (initial (Some alice))))"
    by simp
  from 1 2 show ?thesis by simp
qed

end
